theory Spec2Isabelle
  imports Complex_Main
begin

section \<open>The emotion-detection session of \<open>EmotionDetector.jsx\<close>\<close>

text \<open>
  The component \<open>EmotionDetector\<close> keeps a camera stream, a WebSocket to the inference
  service, a frame loop driven by \<open>requestAnimationFrame\<close> and a rolling timeline of
  classification samples. Its refs (\<open>wsRef\<close>, \<open>streamRef\<close>, \<open>frameLoopRef\<close>,
  \<open>timelineRef\<close>) and its \<open>useState\<close> values form one record; every callback of the
  component is a function from that record to the updated record.

  The value of a JavaScript number is modelled as a real (no NaN, no infinities); where the
  component computes with numbers, the rounding of double arithmetic is a parameter.
  An inbound message is either text that \<open>JSON.parse\<close> rejects, the JSON value \<open>null\<close>
  (on which the first property access throws), or an object whose fields have the types of
  the service's message format; a field that is absent or \<open>null\<close> is \<open>None\<close>.
\<close>

subsection \<open>Data\<close>

text \<open>The values of the \<open>status\<close> state: idle | connecting | live | error | no_face.\<close>

datatype status = Idle | Connecting | Live | Error | NoFace

text \<open>\<open>WebSocket.readyState\<close>.\<close>

datatype ready_state = CONNECTING | OPEN | CLOSING | CLOSED

text \<open>The fields of a parsed inbound message that \<open>ws.onmessage\<close> reads.\<close>

record msg =
  m_type :: "string option"
  m_fps :: "real option"
  m_face_detected :: "bool option"
  m_emotion :: "string option"
  m_all_emotions :: "(string \<times> real) list option"
  m_confidence :: "real option"
  m_stress_score :: "real option"
  m_mock :: "bool option"
  m_timestamp :: "real option"

datatype inbound = NotJson | JsonNull | JsonObject msg

text \<open>A timeline entry \<open>{ t, e, stress }\<close>.\<close>

record entry =
  entry_t :: "real option"
  entry_e :: string
  stress :: real

text \<open>
  What is handed to \<open>ws.send\<close>: \<open>JSON.stringify({ frame: b64 })\<close>, where an undefined
  \<open>b64\<close> leaves the key out, and \<open>JSON.stringify({ type: "reset" })\<close>.
\<close>

datatype outbound = FrameMsg "string option" | TypeMsg string

text \<open>
  The WebSocket that \<open>wsRef\<close> refers to: its ready state, the messages it has transmitted and
  the value of \<open>status\<close> that its handlers closed over. The handlers are created inside
  \<open>connect\<close>, which \<open>useCallback\<close> rebuilds only when \<open>token\<close> or \<open>userId\<close> change, so
  \<open>status\<close> inside \<open>ws.onclose\<close> is the status of the render that built \<open>connect\<close>
  (\<open>Idle\<close> for the first render), not the current one.
\<close>

record websocket =
  readyState :: ready_state
  captured_status :: status
  sent :: "outbound list"

text \<open>A \<open>MediaStreamTrack\<close>: whether it has ended and how often \<open>stop()\<close> was called on it.\<close>

record track =
  ended :: bool
  stop_calls :: nat

text \<open>
  A call of \<open>connect\<close> that is suspended at one of its two awaits (\<open>getUserMedia\<close>, then
  \<open>video.play()\<close>), with the value of \<open>status\<close> that this \<open>connect\<close> closed over.
\<close>

datatype connect_phase = AwaitMedia | AwaitPlay

record session =
  status :: status
  emotion :: "string option"
  allEmotions :: "(string \<times> real) list option"
  confidence :: real
  stressScore :: real
  fps :: real
  timeline :: "entry list"
  isMock :: bool
  faceDetected :: bool
  wsRef :: "websocket option"
  streamRef :: "track list option"
  frameLoopRef :: "nat option"
  timelineRef :: "entry list"
  mounted :: bool
  srcObject :: bool
  raf_pending :: "nat list"
  raf_next :: nat
  encodes :: nat
  toBlob_pending :: nat
  readers :: "string list"
  emotion_updates :: "msg list"
  connects :: "(connect_phase \<times> status) list"

text \<open>
  \<open>mounted\<close> says that \<open>videoRef.current\<close> and \<open>canvasRef.current\<close> are non-null;
  \<open>srcObject\<close> that the video element shows the stream. \<open>raf_pending\<close> holds the ids of the
  \<open>capture\<close> callbacks that the browser has scheduled and not yet run or cancelled,
  \<open>raf_next\<close> the id the next \<open>requestAnimationFrame\<close> returns. \<open>encodes\<close> counts the
  calls of \<open>drawImage\<close>/\<open>toBlob\<close>, \<open>toBlob_pending\<close> the encodings whose callback has not
  run, \<open>readers\<close> the data URLs whose \<open>FileReader\<close> has not fired \<open>onload\<close>.
  \<open>emotion_updates\<close> logs the calls of the \<open>onEmotionUpdate\<close> prop. \<open>connects\<close> holds the
  calls of \<open>connect\<close> that have started and not yet finished.
\<close>

definition init :: session where
  "init = \<lparr> status = Idle, emotion = None, allEmotions = None, confidence = 0,
     stressScore = 0, fps = 0, timeline = [], isMock = False, faceDetected = False,
     wsRef = None, streamRef = None, frameLoopRef = None, timelineRef = [],
     mounted = True, srcObject = False, raf_pending = [], raf_next = 1, encodes = 0,
     toBlob_pending = 0, readers = [], emotion_updates = [], connects = [] \<rparr>"

definition ws_ready :: "session \<Rightarrow> ready_state option" where
  "ws_ready s = map_option readyState (wsRef s)"

subsection \<open>JavaScript helpers\<close>

text \<open>\<open>x || 0\<close> on an optional number, \<open>x || false\<close> on an optional boolean.\<close>

definition num_or0 :: "real option \<Rightarrow> real" where
  "num_or0 x = (case x of None \<Rightarrow> 0 | Some v \<Rightarrow> v)"

definition bool_or_false :: "bool option \<Rightarrow> bool" where
  "bool_or_false x = (case x of None \<Rightarrow> False | Some b \<Rightarrow> b)"

text \<open>Truthiness of an optional boolean and of an optional string (the empty string is falsy).\<close>

definition truthy_bool :: "bool option \<Rightarrow> bool" where
  "truthy_bool x = (x = Some True)"

definition truthy_str :: "string option \<Rightarrow> bool" where
  "truthy_str x = (case x of None \<Rightarrow> False | Some v \<Rightarrow> v \<noteq> [])"

text \<open>\<open>xs.slice(-n)\<close> for a positive \<open>n\<close>: the last \<open>n\<close> elements, all of them when there are fewer.\<close>

definition slice_neg :: "nat \<Rightarrow> 'a list \<Rightarrow> 'a list" where
  "slice_neg n xs = drop (length xs - n) xs"

subsection \<open>\<open>ws.onmessage\<close>\<close>

text \<open>
  The handler body as the sequence of assignments it performs, in source order. Nothing is
  performed when \<open>JSON.parse\<close> or the access \<open>data.type\<close> throws (the \<open>catch\<close> is empty) or
  when the message is a keepalive or pong.
\<close>

datatype stmt =
    SetFps real
  | SetFaceDetected bool
  | SetStatus status
  | SetEmotion string
  | SetAllEmotions "(string \<times> real) list option"
  | SetConfidence real
  | SetStressScore real
  | SetIsMock bool
  | AssignTimelineRef entry
  | SetTimeline
  | OnEmotionUpdate msg

definition entry_of :: "msg \<Rightarrow> entry" where
  "entry_of d = \<lparr> entry_t = m_timestamp d, entry_e = the (m_emotion d),
     stress = num_or0 (m_stress_score d) \<rparr>"

definition is_control :: "msg \<Rightarrow> bool" where
  "is_control d = (m_type d = Some ''keepalive'' \<or> m_type d = Some ''pong'')"

fun on_message_stmts :: "inbound \<Rightarrow> stmt list" where
  "on_message_stmts NotJson = []"
| "on_message_stmts JsonNull = []"
| "on_message_stmts (JsonObject d) =
     (if is_control d then []
      else SetFps (num_or0 (m_fps d)) #
        (if \<not> truthy_bool (m_face_detected d) then [SetFaceDetected False, SetStatus NoFace]
         else [SetFaceDetected True, SetStatus Live] @
           (if truthy_str (m_emotion d) then
              [SetEmotion (the (m_emotion d)),
               SetAllEmotions (m_all_emotions d),
               SetConfidence (num_or0 (m_confidence d)),
               SetStressScore (num_or0 (m_stress_score d)),
               SetIsMock (bool_or_false (m_mock d)),
               AssignTimelineRef (entry_of d),
               SetTimeline,
               OnEmotionUpdate d]
            else [])))"

fun exec :: "stmt \<Rightarrow> session \<Rightarrow> session" where
  "exec (SetFps x) s = s\<lparr>fps := x\<rparr>"
| "exec (SetFaceDetected b) s = s\<lparr>faceDetected := b\<rparr>"
| "exec (SetStatus st) s = s\<lparr>status := st\<rparr>"
| "exec (SetEmotion l) s = s\<lparr>emotion := Some l\<rparr>"
| "exec (SetAllEmotions a) s = s\<lparr>allEmotions := a\<rparr>"
| "exec (SetConfidence x) s = s\<lparr>confidence := x\<rparr>"
| "exec (SetStressScore x) s = s\<lparr>stressScore := x\<rparr>"
| "exec (SetIsMock b) s = s\<lparr>isMock := b\<rparr>"
| "exec (AssignTimelineRef en) s = s\<lparr>timelineRef := slice_neg 299 (timelineRef s) @ [en]\<rparr>"
| "exec SetTimeline s = s\<lparr>timeline := timelineRef s\<rparr>"
| "exec (OnEmotionUpdate d) s = s\<lparr>emotion_updates := emotion_updates s @ [d]\<rparr>"


definition on_message :: "session \<Rightarrow> inbound \<Rightarrow> session" where
  "on_message s i = fold exec (on_message_stmts i) s"

text \<open>A sequence of inbound messages, handled in arrival order.\<close>

definition on_messages :: "session \<Rightarrow> inbound list \<Rightarrow> session" where
  "on_messages s ms = foldl on_message s ms"

text \<open>The entries that a message, or a sequence of messages, appends to the timeline.\<close>

fun appended_by :: "stmt \<Rightarrow> entry list" where
  "appended_by (AssignTimelineRef en) = [en]"
| "appended_by _ = []"

definition appended :: "inbound list \<Rightarrow> entry list" where
  "appended ms = concat (map (\<lambda>i. concat (map appended_by (on_message_stmts i))) ms)"

subsection \<open>The frame loop\<close>

text \<open>
  \<open>requestAnimationFrame(capture)\<close> followed by the assignment of its result to
  \<open>frameLoopRef.current\<close>.
\<close>

definition request_frame :: "session \<Rightarrow> session" where
  "request_frame s = s\<lparr> raf_pending := raf_pending s @ [raf_next s],
     frameLoopRef := Some (raf_next s), raf_next := Suc (raf_next s) \<rparr>"

definition startFrameLoop :: "session \<Rightarrow> session" where
  "startFrameLoop s = (if \<not> mounted s then s else request_frame s)"

text \<open>
  \<open>if (frameLoopRef.current) cancelAnimationFrame(frameLoopRef.current)\<close>: the id 0 is falsy,
  and cancelling an id that is not pending does nothing.
\<close>

definition stopFrameLoop :: "session \<Rightarrow> session" where
  "stopFrameLoop s =
     (case frameLoopRef s of
        None \<Rightarrow> s
      | Some i \<Rightarrow> if i = 0 then s else s\<lparr>raf_pending := removeAll i (raf_pending s)\<rparr>)"

text \<open>
  One tick: the body of \<open>capture\<close>. When the socket is missing or not open it returns at
  once; otherwise it draws the frame, starts the JPEG encoding and requests the next frame.
\<close>

definition capture :: "session \<Rightarrow> session" where
  "capture s =
     (if ws_ready s \<noteq> Some OPEN then s
      else request_frame (s\<lparr> encodes := Suc (encodes s),
             toBlob_pending := Suc (toBlob_pending s) \<rparr>))"

text \<open>The browser runs the oldest scheduled callback.\<close>

definition run_frame :: "session \<Rightarrow> session" where
  "run_frame s =
     (case raf_pending s of [] \<Rightarrow> s | i # rest \<Rightarrow> capture (s\<lparr>raf_pending := rest\<rparr>))"

text \<open>
  The \<open>toBlob\<close> callback: a null blob is dropped, any other is handed to a \<open>FileReader\<close>;
  the argument is the data URL that reader will produce.
\<close>

definition on_blob :: "string option \<Rightarrow> session \<Rightarrow> session" where
  "on_blob blob s =
     (let s1 = s\<lparr>toBlob_pending := toBlob_pending s - 1\<rparr>
      in case blob of None \<Rightarrow> s1 | Some url \<Rightarrow> s1\<lparr>readers := readers s1 @ [url]\<rparr>)"

text \<open>\<open>str.split(c)\<close> and the element \<open>[1]\<close> of its result (undefined when there is none).\<close>

fun split_on :: "char \<Rightarrow> string \<Rightarrow> string list" where
  "split_on c [] = [[]]"
| "split_on c (x # xs) =
     (if x = c then [] # split_on c xs
      else (case split_on c xs of [] \<Rightarrow> [[x]] | y # ys \<Rightarrow> (x # y) # ys))"

definition second_field :: "string \<Rightarrow> string option" where
  "second_field r = (case split_on (CHR '','') r of _ # b # _ \<Rightarrow> Some b | _ \<Rightarrow> None)"

definition ws_transmit :: "outbound \<Rightarrow> session \<Rightarrow> session" where
  "ws_transmit m s =
     (case wsRef s of None \<Rightarrow> s | Some w \<Rightarrow> s\<lparr>wsRef := Some (w\<lparr>sent := sent w @ [m]\<rparr>)\<rparr>)"

text \<open>\<open>reader.onload\<close>: the frame is sent only if the socket is open at that moment.\<close>

definition reader_onload :: "session \<Rightarrow> session" where
  "reader_onload s =
     (case readers s of
        [] \<Rightarrow> s
      | r # rest \<Rightarrow>
          (let s1 = s\<lparr>readers := rest\<rparr>
           in if ws_ready s1 = Some OPEN then ws_transmit (FrameMsg (second_field r)) s1
              else s1))"

subsection \<open>The socket's other handlers\<close>

definition on_open :: "session \<Rightarrow> session" where
  "on_open s = startFrameLoop (s\<lparr>status := Live\<rparr>)"

definition on_error :: "session \<Rightarrow> session" where
  "on_error s = s\<lparr>status := Error\<rparr>"

text \<open>
  \<open>ws.onclose\<close>: \<open>if (status !== "idle") setStatus("idle"); stopFrameLoop();\<close> where
  \<open>status\<close> is the value the handler closed over.
\<close>

definition on_close :: "status \<Rightarrow> session \<Rightarrow> session" where
  "on_close captured s =
     stopFrameLoop (if captured \<noteq> Idle then s\<lparr>status := Idle\<rparr> else s)"

text \<open>
  The browser's side of the socket events. The ready state is \<open>OPEN\<close> when \<open>open\<close> fires
  and \<open>CLOSED\<close> when \<open>error\<close> or \<open>close\<close> fire.
\<close>

definition set_ready :: "ready_state \<Rightarrow> session \<Rightarrow> session" where
  "set_ready r s = s\<lparr>wsRef := map_option (\<lambda>w. w\<lparr>readyState := r\<rparr>) (wsRef s)\<rparr>"

definition ev_open :: "session \<Rightarrow> session" where
  "ev_open s = on_open (set_ready OPEN s)"

definition ev_error :: "session \<Rightarrow> session" where
  "ev_error s = on_error (set_ready CLOSED s)"

definition ev_close :: "session \<Rightarrow> session" where
  "ev_close s =
     (case wsRef s of
        None \<Rightarrow> s
      | Some w \<Rightarrow> on_close (captured_status w) (set_ready CLOSED s))"

subsection \<open>\<open>connect\<close>, \<open>disconnect\<close> and the reset button\<close>

text \<open>
  \<open>connect\<close> sets the status to \<open>Connecting\<close> and awaits \<open>getUserMedia\<close>; when the
  stream arrives it stores it and, if the video element exists, attaches it and awaits
  \<open>video.play()\<close>; then it constructs the socket. A rejected await sets the status to
  \<open>Error\<close> and ends the call, as does a throwing \<open>WebSocket\<close> constructor. Each of these
  pieces is a step of its own, so that clicks and events can run while a call is suspended.
  A call is addressed by its position in \<open>connects\<close>; a position that holds no call in the
  matching phase leaves the session unchanged. \<open>getUserMedia\<close> delivers fresh live tracks.
\<close>

definition fresh_tracks :: "nat \<Rightarrow> track list" where
  "fresh_tracks n = replicate n \<lparr> ended = False, stop_calls = 0 \<rparr>"

definition attach :: "nat \<Rightarrow> session \<Rightarrow> session" where
  "attach n s =
     (let s1 = s\<lparr>streamRef := Some (fresh_tracks n)\<rparr>
      in if mounted s1 then s1\<lparr>srcObject := True\<rparr> else s1)"

definition new_socket :: "status \<Rightarrow> session \<Rightarrow> session" where
  "new_socket captured s =
     s\<lparr>wsRef := Some \<lparr> readyState = CONNECTING, captured_status = captured, sent = [] \<rparr>\<rparr>"

definition connect_begin :: "status \<Rightarrow> session \<Rightarrow> session" where
  "connect_begin captured s =
     s\<lparr> status := Connecting, connects := connects s @ [(AwaitMedia, captured)] \<rparr>"

definition task_at :: "nat \<Rightarrow> session \<Rightarrow> (connect_phase \<times> status) option" where
  "task_at k s = (if k < length (connects s) then Some (connects s ! k) else None)"

definition drop_task :: "nat \<Rightarrow> session \<Rightarrow> session" where
  "drop_task k s = s\<lparr>connects := take k (connects s) @ drop (Suc k) (connects s)\<rparr>"

text \<open>The second \<open>try\<close> block: \<open>new WebSocket(...)\<close> either throws or yields a connecting socket.\<close>

definition create_socket :: "bool \<Rightarrow> status \<Rightarrow> session \<Rightarrow> session" where
  "create_socket throws captured s =
     (if throws then s\<lparr>status := Error\<rparr> else new_socket captured s)"

definition media_rejected :: "nat \<Rightarrow> session \<Rightarrow> session" where
  "media_rejected k s =
     (case task_at k s of
        Some (AwaitMedia, captured) \<Rightarrow> (drop_task k s)\<lparr>status := Error\<rparr>
      | _ \<Rightarrow> s)"

definition media_resolved :: "nat \<Rightarrow> nat \<Rightarrow> bool \<Rightarrow> session \<Rightarrow> session" where
  "media_resolved k n throws s =
     (case task_at k s of
        Some (AwaitMedia, captured) \<Rightarrow>
          (let s1 = attach n s
           in if mounted s1 then s1\<lparr>connects := (connects s1)[k := (AwaitPlay, captured)]\<rparr>
              else create_socket throws captured (drop_task k s1))
      | _ \<Rightarrow> s)"

definition play_rejected :: "nat \<Rightarrow> session \<Rightarrow> session" where
  "play_rejected k s =
     (case task_at k s of
        Some (AwaitPlay, captured) \<Rightarrow> (drop_task k s)\<lparr>status := Error\<rparr>
      | _ \<Rightarrow> s)"

definition play_resolved :: "nat \<Rightarrow> bool \<Rightarrow> session \<Rightarrow> session" where
  "play_resolved k throws s =
     (case task_at k s of
        Some (AwaitPlay, captured) \<Rightarrow> create_socket throws captured (drop_task k s)
      | _ \<Rightarrow> s)"

text \<open>
  A call of \<open>connect\<close> during which nothing else runs: the steps above in a row, up to the
  point that the outcome names.
\<close>

datatype connect_outcome =
    GetUserMediaRejected
  | PlayRejected nat
  | WebSocketThrows nat
  | Connected nat

definition connect :: "status \<Rightarrow> connect_outcome \<Rightarrow> session \<Rightarrow> session" where
  "connect captured out s =
     (let k = length (connects s); s0 = connect_begin captured s
      in case out of
           GetUserMediaRejected \<Rightarrow> media_rejected k s0
         | PlayRejected n \<Rightarrow>
             (let s1 = media_resolved k n False s0
              in if mounted s then play_rejected k s1 else s1)
         | WebSocketThrows n \<Rightarrow>
             (let s1 = media_resolved k n True s0
              in if mounted s then play_resolved k True s1 else s1)
         | Connected n \<Rightarrow>
             (let s1 = media_resolved k n False s0
              in if mounted s then play_resolved k False s1 else s1))"

text \<open>
  \<open>ws.close()\<close> moves a connecting or open socket to \<open>CLOSING\<close> and does nothing
  otherwise; \<open>track.stop()\<close> ends the track.
\<close>

definition ws_close :: "websocket \<Rightarrow> websocket" where
  "ws_close w =
     (if readyState w = CONNECTING \<or> readyState w = OPEN then w\<lparr>readyState := CLOSING\<rparr>
      else w)"

definition track_stop :: "track \<Rightarrow> track" where
  "track_stop t = t\<lparr> ended := True, stop_calls := Suc (stop_calls t) \<rparr>"

definition disconnect :: "session \<Rightarrow> session" where
  "disconnect s =
     (let s1 = stopFrameLoop s;
          s2 = s1\<lparr>wsRef := map_option ws_close (wsRef s1)\<rparr>;
          s3 = s2\<lparr>streamRef := map_option (map track_stop) (streamRef s2)\<rparr>;
          s4 = (if mounted s3 then s3\<lparr>srcObject := False\<rparr> else s3)
      in s4\<lparr> status := Idle, emotion := None, allEmotions := None \<rparr>)"

text \<open>
  The cleanup of the component's effect runs \<open>disconnect\<close> when the component is unmounted;
  the DOM refs are already null by then, so the video element is not touched.
\<close>

definition unmount :: "session \<Rightarrow> session" where
  "unmount s = disconnect (s\<lparr>mounted := False\<rparr>)"

text \<open>
  The reset button: \<open>wsRef.current?.send(JSON.stringify({ type: "reset" }))\<close>, then the
  timeline is emptied. \<open>send\<close> throws on a socket that is still connecting, which ends the
  click handler before the timeline is touched; on a closing or closed socket the data is
  dropped silently.
\<close>

datatype error = InvalidStateError

definition clear_timeline :: "session \<Rightarrow> session" where
  "clear_timeline s = s\<lparr> timelineRef := [], timeline := [] \<rparr>"

definition reset :: "session \<Rightarrow> error + session" where
  "reset s =
     (case wsRef s of
        None \<Rightarrow> Inr (clear_timeline s)
      | Some w \<Rightarrow>
          (case readyState w of
             CONNECTING \<Rightarrow> Inl InvalidStateError
           | OPEN \<Rightarrow> Inr (clear_timeline (ws_transmit (TypeMsg ''reset'') s))
           | CLOSING \<Rightarrow> Inr (clear_timeline s)
           | CLOSED \<Rightarrow> Inr (clear_timeline s)))"

text \<open>Which buttons the component renders: START when idle, RESET and STOP otherwise.\<close>

definition start_offered :: "session \<Rightarrow> bool" where
  "start_offered s = (status s = Idle)"

definition reset_offered :: "session \<Rightarrow> bool" where
  "reset_offered s = (status s \<noteq> Idle)"

subsection \<open>Session statistics\<close>














definition first_seen :: "string \<Rightarrow> entry list \<Rightarrow> nat" where
  "first_seen k hist = length (takeWhile (\<lambda>t. entry_e t \<noteq> k) hist)"

subsection \<open>Reachable sessions\<close>

text \<open>
  The sessions that the component reaches from its initial state when every call of
  \<open>connect\<close> runs to its end before anything else happens: the START button exists only
  while idle, RESET and STOP only otherwise; the socket events fire on the socket that
  \<open>wsRef\<close> refers to (\<open>open\<close> while it connects, \<open>message\<close> while it is open); frames and
  encoder callbacks run when one is pending. Events of a socket that \<open>wsRef\<close> no longer
  refers to are not part of the model.
\<close>

inductive reachable :: "session \<Rightarrow> bool" where
  r_init: "reachable init"
| r_connect: "reachable s \<Longrightarrow> start_offered s \<Longrightarrow> reachable (connect c out s)"
| r_open: "reachable s \<Longrightarrow> ws_ready s = Some CONNECTING \<Longrightarrow> reachable (ev_open s)"
| r_message: "reachable s \<Longrightarrow> ws_ready s = Some OPEN \<Longrightarrow> reachable (on_message s i)"
| r_error: "reachable s \<Longrightarrow> wsRef s \<noteq> None \<Longrightarrow> reachable (ev_error s)"
| r_close: "reachable s \<Longrightarrow> wsRef s \<noteq> None \<Longrightarrow> reachable (ev_close s)"
| r_frame: "reachable s \<Longrightarrow> raf_pending s \<noteq> [] \<Longrightarrow> reachable (run_frame s)"
| r_blob: "reachable s \<Longrightarrow> 0 < toBlob_pending s \<Longrightarrow> reachable (on_blob b s)"
| r_reader: "reachable s \<Longrightarrow> readers s \<noteq> [] \<Longrightarrow> reachable (reader_onload s)"
| r_stop: "reachable s \<Longrightarrow> reset_offered s \<Longrightarrow> reachable (disconnect s)"
| r_unmount: "reachable s \<Longrightarrow> reachable (unmount s)"
| r_reset: "reachable s \<Longrightarrow> reset_offered s \<Longrightarrow> reset s = Inr s' \<Longrightarrow> reachable s'"

text \<open>
  The same, with the calls of \<open>connect\<close> taken apart: a call starts with the START click
  and is then suspended; its awaits resolve or reject at any later moment, in any order with
  the clicks, the socket events and the frames.
\<close>

inductive reachable_async :: "session \<Rightarrow> bool" where
  a_init: "reachable_async init"
| a_start: "reachable_async s \<Longrightarrow> start_offered s \<Longrightarrow> reachable_async (connect_begin c s)"
| a_media_rejected:
    "reachable_async s \<Longrightarrow> task_at k s = Some (AwaitMedia, c) \<Longrightarrow>
       reachable_async (media_rejected k s)"
| a_media_resolved:
    "reachable_async s \<Longrightarrow> task_at k s = Some (AwaitMedia, c) \<Longrightarrow>
       reachable_async (media_resolved k n throws s)"
| a_play_rejected:
    "reachable_async s \<Longrightarrow> task_at k s = Some (AwaitPlay, c) \<Longrightarrow>
       reachable_async (play_rejected k s)"
| a_play_resolved:
    "reachable_async s \<Longrightarrow> task_at k s = Some (AwaitPlay, c) \<Longrightarrow>
       reachable_async (play_resolved k throws s)"
| a_open: "reachable_async s \<Longrightarrow> ws_ready s = Some CONNECTING \<Longrightarrow> reachable_async (ev_open s)"
| a_message:
    "reachable_async s \<Longrightarrow> ws_ready s = Some OPEN \<Longrightarrow> reachable_async (on_message s i)"
| a_error: "reachable_async s \<Longrightarrow> wsRef s \<noteq> None \<Longrightarrow> reachable_async (ev_error s)"
| a_close: "reachable_async s \<Longrightarrow> wsRef s \<noteq> None \<Longrightarrow> reachable_async (ev_close s)"
| a_frame: "reachable_async s \<Longrightarrow> raf_pending s \<noteq> [] \<Longrightarrow> reachable_async (run_frame s)"
| a_blob: "reachable_async s \<Longrightarrow> 0 < toBlob_pending s \<Longrightarrow> reachable_async (on_blob b s)"
| a_reader: "reachable_async s \<Longrightarrow> readers s \<noteq> [] \<Longrightarrow> reachable_async (reader_onload s)"
| a_stop: "reachable_async s \<Longrightarrow> reset_offered s \<Longrightarrow> reachable_async (disconnect s)"
| a_unmount: "reachable_async s \<Longrightarrow> reachable_async (unmount s)"
| a_reset:
    "reachable_async s \<Longrightarrow> reset_offered s \<Longrightarrow> reset s = Inr s' \<Longrightarrow> reachable_async s'"

text \<open>
  What every reachable session satisfies: an open socket goes with the status \<open>Live\<close> or
  \<open>NoFace\<close>; at most one \<open>capture\<close> callback is scheduled, and \<open>frameLoopRef\<close> holds its
  id; none is scheduled while idle or while the socket connects; the \<open>timeline\<close> state is
  the content of \<open>timelineRef\<close>, at most 300 entries.
\<close>

definition session_inv :: "session \<Rightarrow> bool" where
  "session_inv s \<longleftrightarrow>
     (ws_ready s = Some OPEN \<longrightarrow> status s = Live \<or> status s = NoFace) \<and>
     length (raf_pending s) \<le> 1 \<and>
     (\<forall>i \<in> set (raf_pending s). frameLoopRef s = Some i \<and> 0 < i) \<and>
     (status s = Idle \<longrightarrow> raf_pending s = []) \<and>
     (ws_ready s = Some CONNECTING \<longrightarrow> raf_pending s = []) \<and>
     0 < raf_next s \<and>
     timeline s = timelineRef s \<and> length (timelineRef s) \<le> 300"

subsection \<open>A sample run\<close>

text \<open>
  The component is mounted (so \<open>connect\<close> closed over the status \<open>Idle\<close>), START is clicked,
  the camera delivers one track, the socket opens and the service reports a calm face.
  \<open>empty_msg\<close> is the object \<open>{}\<close>.
\<close>

definition empty_msg :: msg where
  "empty_msg = \<lparr> m_type = None, m_fps = None, m_face_detected = None, m_emotion = None,
     m_all_emotions = None, m_confidence = None, m_stress_score = None, m_mock = None,
     m_timestamp = None \<rparr>"

definition calm_msg :: msg where
  "calm_msg = empty_msg\<lparr> m_fps := Some 30, m_face_detected := Some True,
     m_emotion := Some ''calm'', m_confidence := Some (9 / 10),
     m_stress_score := Some (1 / 5), m_timestamp := Some 1 \<rparr>"

definition face_only_msg :: msg where
  "face_only_msg = empty_msg\<lparr> m_fps := Some 30, m_face_detected := Some True \<rparr>"

definition connecting_session :: session where
  "connecting_session = connect Idle (Connected 1) init"

definition open_session :: session where
  "open_session = ev_open connecting_session"

definition live_session :: session where
  "live_session = on_message open_session (JsonObject calm_msg)"

text \<open>
  The sample run after the object \<open>{}\<close> has arrived, and a keepalive that carries
  \<open>face_detected\<close> true and no emotion.
\<close>

definition no_face_session :: session where
  "no_face_session = on_message live_session (JsonObject empty_msg)"

definition keepalive_face_msg :: msg where
  "keepalive_face_msg = face_only_msg\<lparr> m_type := Some ''keepalive'' \<rparr>"





text \<open>The sample run after a socket error.\<close>

definition error_session :: session where
  "error_session = ev_error live_session"


section \<open>Properties\<close>

subsection \<open>An uninterrupted call of \<open>connect\<close>\<close>

lemma task_at_begin: "task_at (length (connects s)) (connect_begin c s) = Some (AwaitMedia, c)"
  by (simp add: task_at_def connect_begin_def)

lemma connect_run:
  "connect c GetUserMediaRejected s = s\<lparr>status := Error\<rparr>"
  "connect c (PlayRejected n) s =
     (let s1 = attach n (s\<lparr>status := Connecting\<rparr>)
      in if mounted s1 then s1\<lparr>status := Error\<rparr> else new_socket c s1)"
  "connect c (WebSocketThrows n) s = (attach n (s\<lparr>status := Connecting\<rparr>))\<lparr>status := Error\<rparr>"
  "connect c (Connected n) s = new_socket c (attach n (s\<lparr>status := Connecting\<rparr>))"
  by (simp_all add: connect_def connect_begin_def media_rejected_def media_resolved_def
      play_rejected_def play_resolved_def create_socket_def task_at_def drop_task_def
      attach_def new_socket_def Let_def)

lemmas sample_defs = live_session_def open_session_def connecting_session_def init_def
  calm_msg_def empty_msg_def face_only_msg_def ev_open_def on_open_def set_ready_def
  startFrameLoop_def request_frame_def connect_run attach_def new_socket_def fresh_tracks_def
  on_message_def is_control_def truthy_bool_def truthy_str_def num_or0_def bool_or_false_def
  entry_of_def slice_neg_def

subsection \<open>The invariant of reachable sessions\<close>

lemma inv_init: "session_inv init"
  by (simp add: session_inv_def init_def ws_ready_def)

lemma inv_connect: "session_inv s \<Longrightarrow> start_offered s \<Longrightarrow> session_inv (connect c out s)"
  by (cases out)
    (auto simp add: session_inv_def start_offered_def ws_ready_def connect_run attach_def
      new_socket_def Let_def)

lemma inv_open: "session_inv s \<Longrightarrow> ws_ready s = Some CONNECTING \<Longrightarrow> session_inv (ev_open s)"
  by (auto simp add: session_inv_def ev_open_def on_open_def startFrameLoop_def
      request_frame_def set_ready_def ws_ready_def)

lemma slice_neg_length: "length (slice_neg n xs) \<le> n"
  by (simp add: slice_neg_def)

lemma inv_message: "session_inv s \<Longrightarrow> ws_ready s = Some OPEN \<Longrightarrow> session_inv (on_message s i)"
proof (cases i)
  case (JsonObject d)
  assume "session_inv s" "ws_ready s = Some OPEN"
  moreover have "length (slice_neg 299 (timelineRef s)) \<le> 299" by (rule slice_neg_length)
  ultimately show ?thesis using JsonObject
    by (auto simp add: session_inv_def on_message_def ws_ready_def)
qed (simp_all add: on_message_def)

lemma inv_error: "session_inv s \<Longrightarrow> session_inv (ev_error s)"
  by (auto simp add: session_inv_def ev_error_def on_error_def set_ready_def ws_ready_def)

lemma pending_cancelled:
  "length (raf_pending s) \<le> 1 \<Longrightarrow> \<forall>i \<in> set (raf_pending s). frameLoopRef s = Some i \<and> 0 < i
     \<Longrightarrow> raf_pending (stopFrameLoop s) = []"
  by (cases "raf_pending s") (auto simp add: stopFrameLoop_def split: option.splits)

lemma stopFrameLoop_other:
  "status (stopFrameLoop s) = status s" "wsRef (stopFrameLoop s) = wsRef s"
  "frameLoopRef (stopFrameLoop s) = frameLoopRef s" "raf_next (stopFrameLoop s) = raf_next s"
  "timeline (stopFrameLoop s) = timeline s" "timelineRef (stopFrameLoop s) = timelineRef s"
  "streamRef (stopFrameLoop s) = streamRef s" "mounted (stopFrameLoop s) = mounted s"
  by (simp_all add: stopFrameLoop_def split: option.splits)

lemma inv_close: "session_inv s \<Longrightarrow> session_inv (ev_close s)"
proof (cases "wsRef s")
  case None
  assume "session_inv s"
  then show ?thesis using None by (simp add: ev_close_def)
next
  case (Some w)
  assume i: "session_inv s"
  let ?m = "if captured_status w \<noteq> Idle then (set_ready CLOSED s)\<lparr>status := Idle\<rparr>
            else set_ready CLOSED s"
  have e: "ev_close s = stopFrameLoop ?m" using Some by (simp add: ev_close_def on_close_def)
  have "raf_pending (stopFrameLoop ?m) = []"
    using i by (intro pending_cancelled) (auto simp add: session_inv_def set_ready_def)
  then show ?thesis using i Some unfolding e
    by (auto simp add: session_inv_def stopFrameLoop_other ws_ready_def set_ready_def)
qed

lemma inv_frame: "session_inv s \<Longrightarrow> session_inv (run_frame s)"
  by (cases "raf_pending s")
    (auto simp add: session_inv_def run_frame_def capture_def request_frame_def ws_ready_def)

lemma inv_blob: "session_inv s \<Longrightarrow> session_inv (on_blob b s)"
  by (cases b) (auto simp add: session_inv_def on_blob_def ws_ready_def Let_def)

lemma inv_reader: "session_inv s \<Longrightarrow> session_inv (reader_onload s)"
  by (cases "readers s")
    (auto simp add: session_inv_def reader_onload_def ws_transmit_def ws_ready_def Let_def
      split: option.splits)

lemma disconnect_pending:
  "session_inv s \<Longrightarrow> raf_pending (disconnect s) = []"
proof -
  assume "session_inv s"
  then have "raf_pending (stopFrameLoop s) = []"
    by (intro pending_cancelled) (auto simp add: session_inv_def)
  then show ?thesis by (simp add: disconnect_def Let_def)
qed

lemma ws_close_ready: "readyState (ws_close w) \<noteq> OPEN \<and> readyState (ws_close w) \<noteq> CONNECTING"
  by (simp add: ws_close_def)

lemma inv_disconnect: "session_inv s \<Longrightarrow> session_inv (disconnect s)"
proof -
  assume i: "session_inv s"
  have p: "raf_pending (disconnect s) = []" using i by (rule disconnect_pending)
  have o: "ws_ready (disconnect s) \<noteq> Some OPEN"
    using ws_close_ready by (cases "wsRef s")
      (auto simp add: disconnect_def Let_def ws_ready_def stopFrameLoop_other)
  have r: "raf_next (disconnect s) = raf_next s" "timeline (disconnect s) = timeline s"
    "timelineRef (disconnect s) = timelineRef s" "status (disconnect s) = Idle"
    by (simp_all add: disconnect_def Let_def stopFrameLoop_other)
  show ?thesis using i p o r by (simp add: session_inv_def)
qed

lemma inv_unmount: "session_inv s \<Longrightarrow> session_inv (unmount s)"
proof -
  assume "session_inv s"
  then have "session_inv (s\<lparr>mounted := False\<rparr>)" by (simp add: session_inv_def ws_ready_def)
  then show ?thesis unfolding unmount_def by (rule inv_disconnect)
qed

lemma inv_reset: "session_inv s \<Longrightarrow> reset s = Inr s' \<Longrightarrow> session_inv s'"
  by (auto simp add: session_inv_def reset_def clear_timeline_def ws_transmit_def ws_ready_def
      split: option.splits ready_state.splits)

lemma reachable_inv: "reachable s \<Longrightarrow> session_inv s"
proof (induction rule: reachable.induct)
  case r_init
  show ?case by (rule inv_init)
qed (simp_all add: inv_connect inv_open inv_message inv_error inv_close inv_frame inv_blob
    inv_reader inv_disconnect inv_unmount inv_reset)

subsection \<open>The timeline as a bounded buffer\<close>

lemma slice_neg_snoc: "slice_neg 299 xs @ [x] = slice_neg 300 (xs @ [x])"
  by (simp add: slice_neg_def)

lemma slice_neg_absorb: "slice_neg n (slice_neg n xs @ ys) = slice_neg n (xs @ ys)"
  by (cases "n \<le> length xs") (simp_all add: slice_neg_def add.commute)

lemma slice_neg_short: "length xs \<le> n \<Longrightarrow> slice_neg n xs = xs"
  by (simp add: slice_neg_def)

lemma slice_neg_long: "n \<le> length ys \<Longrightarrow> slice_neg n (xs @ ys) = slice_neg n ys"
  by (simp add: slice_neg_def)

lemma push_fold:
  "length h \<le> 300 \<Longrightarrow>
     foldl (\<lambda>h en. slice_neg 299 h @ [en]) h es = slice_neg 300 (h @ es)"
proof (induction es arbitrary: h)
  case Nil
  then show ?case by (simp add: slice_neg_short)
next
  case (Cons e es)
  have "length (slice_neg 300 (h @ [e])) \<le> 300" by (rule slice_neg_length)
  then have "foldl (\<lambda>h en. slice_neg 299 h @ [en]) (slice_neg 300 (h @ [e])) es
      = slice_neg 300 (slice_neg 300 (h @ [e]) @ es)"
    by (rule Cons.IH)
  then show ?case by (simp add: slice_neg_snoc slice_neg_absorb)
qed

lemma exec_timelineRef:
  "timelineRef (exec st s)
     = foldl (\<lambda>h en. slice_neg 299 h @ [en]) (timelineRef s) (appended_by st)"
  by (cases st) simp_all

lemma fold_exec_timelineRef:
  "timelineRef (fold exec sts s)
     = foldl (\<lambda>h en. slice_neg 299 h @ [en]) (timelineRef s) (concat (map appended_by sts))"
  by (induction sts arbitrary: s) (simp_all add: exec_timelineRef)

lemma on_messages_timelineRef:
  "timelineRef (on_messages s ms)
     = foldl (\<lambda>h en. slice_neg 299 h @ [en]) (timelineRef s) (appended ms)"
proof (induction ms arbitrary: s)
  case Nil
  show ?case by (simp add: on_messages_def appended_def)
next
  case (Cons m ms)
  have "on_messages s (m # ms) = on_messages (on_message s m) ms"
    by (simp add: on_messages_def)
  moreover have "appended (m # ms) = concat (map appended_by (on_message_stmts m)) @ appended ms"
    by (simp add: appended_def)
  ultimately show ?case
    by (simp add: Cons.IH on_message_def fold_exec_timelineRef)
qed

lemma on_message_timeline_sync:
  "timeline s = timelineRef s \<Longrightarrow> timeline (on_message s i) = timelineRef (on_message s i)"
  by (cases i) (simp_all add: on_message_def)

lemma on_messages_timeline_sync:
  "timeline s = timelineRef s \<Longrightarrow> timeline (on_messages s ms) = timelineRef (on_messages s ms)"
proof (induction ms arbitrary: s)
  case Nil
  then show ?case by (simp add: on_messages_def)
next
  case (Cons m ms)
  have "on_messages s (m # ms) = on_messages (on_message s m) ms"
    by (simp add: on_messages_def)
  then show ?case using Cons.IH [OF on_message_timeline_sync [OF Cons.prems]] by simp
qed

lemma appended_single:
  "appended [i] =
     (case i of
        JsonObject d \<Rightarrow>
          if \<not> is_control d \<and> m_face_detected d = Some True \<and> truthy_str (m_emotion d)
          then [entry_of d] else []
      | _ \<Rightarrow> [])"
  by (cases i) (simp_all add: appended_def truthy_bool_def)

lemma appended_replicate:
  "appended (replicate n (JsonObject calm_msg)) = replicate n (entry_of calm_msg)"
  by (induction n) (simp_all add: appended_def calm_msg_def empty_msg_def is_control_def
      truthy_bool_def truthy_str_def)


subsection \<open>The sample run is reachable\<close>

lemma live_reachable: "reachable live_session"
proof -
  have c: "reachable connecting_session"
    unfolding connecting_session_def
    by (rule r_connect [OF r_init]) (simp add: start_offered_def init_def)
  have o: "reachable open_session"
    unfolding open_session_def
    by (rule r_open [OF c]) (simp add: sample_defs ws_ready_def)
  show ?thesis
    unfolding live_session_def
    by (rule r_message [OF o]) (simp add: sample_defs ws_ready_def)
qed


subsection \<open>Label counts and the leading label\<close>











lemma first_seen_absent: "k \<notin> entry_e ` set hist \<Longrightarrow> first_seen k hist = length hist"
  unfolding first_seen_def by (induction hist) auto





subsection \<open>Suspended calls of \<open>connect\<close>\<close>

lemma reachable_async_connect:
  assumes "reachable_async s" "start_offered s"
  shows "reachable_async (connect c out s)"
proof -
  let ?k = "length (connects s)"
  let ?s0 = "connect_begin c s"
  have r0: "reachable_async ?s0" using assms by (rule a_start)
  have t0: "task_at ?k ?s0 = Some (AwaitMedia, c)" by (rule task_at_begin)
  have m: "mounted ?s0 = mounted s" by (simp add: connect_begin_def)
  have r1: "reachable_async (media_resolved ?k n th ?s0)" for n th
    using r0 t0 by (rule a_media_resolved)
  have t1: "mounted s \<Longrightarrow> task_at ?k (media_resolved ?k n th ?s0) = Some (AwaitPlay, c)" for n th
    by (simp add: media_resolved_def t0 attach_def Let_def m)
      (simp add: task_at_def connect_begin_def)
  show ?thesis
  proof (cases out)
    case GetUserMediaRejected
    then show ?thesis using a_media_rejected [OF r0 t0] by (simp add: connect_def Let_def)
  next
    case (PlayRejected n)
    then show ?thesis using r1 [of n False] a_play_rejected [OF r1 [of n False] t1 [of n False]]
      by (simp add: connect_def Let_def)
  next
    case (WebSocketThrows n)
    then show ?thesis using r1 [of n True] a_play_resolved [OF r1 [of n True] t1 [of n True]]
      by (simp add: connect_def Let_def)
  next
    case (Connected n)
    then show ?thesis using r1 [of n False] a_play_resolved [OF r1 [of n False] t1 [of n False]]
      by (simp add: connect_def Let_def)
  qed
qed

lemma reachable_async_of_reachable: "reachable s \<Longrightarrow> reachable_async s"
proof (induction rule: reachable.induct)
  case r_init
  show ?case by (rule a_init)
next
  case (r_connect s c out)
  then show ?case by (simp add: reachable_async_connect)
next
  case (r_reset s s')
  then show ?case using a_reset by blast
qed (simp_all add: a_open a_message a_error a_close a_frame a_blob a_reader a_stop a_unmount)






subsection \<open>Inbound messages\<close>

text \<open>
  C2, as stated: a malformed inbound message (text that is not JSON, or an object without
  \<open>face_detected\<close> that is not a keepalive) leaves the session state, the latest sample and
  the timeline unchanged. The object \<open>{}\<close> refutes this: \<open>!data.face_detected\<close> holds for a
  missing field, so the handler takes the no-face branch and a live session becomes
  \<open>NoFace\<close>.
\<close>

theorem malformed_message_counterexample:
  "\<not> is_control empty_msg \<and> m_face_detected empty_msg = None \<and> status live_session = Live
     \<and> status (on_message live_session (JsonObject empty_msg)) = NoFace"
  by (simp add: sample_defs)

text \<open>
  C2, amended: text that is not JSON, and the JSON value \<open>null\<close>, leave the whole session
  unchanged. An object without
  \<open>face_detected\<close> that is not a keepalive is handled like one with \<open>face_detected\<close> false:
  the status becomes \<open>NoFace\<close>, \<open>faceDetected\<close> false and \<open>fps\<close> its \<open>fps\<close> field or 0;
  every other part of the session, in particular the latest sample and the timeline, is
  unchanged.
\<close>

theorem malformed_message_effect:
  "on_message s NotJson = s \<and> on_message s JsonNull = s \<and>
   (\<not> is_control d \<and> m_face_detected d = None \<longrightarrow>
      on_message s (JsonObject d)
        = s\<lparr> fps := num_or0 (m_fps d), faceDetected := False, status := NoFace \<rparr>)"
  by (simp add: on_message_def truthy_bool_def)

theorem malformed_message_effect_witness:
  "\<not> is_control empty_msg \<and> m_face_detected empty_msg = None \<and>
   on_message live_session (JsonObject empty_msg)
     = live_session\<lparr> fps := 0, faceDetected := False, status := NoFace \<rparr> \<and>
   timeline (on_message live_session (JsonObject empty_msg)) = timeline live_session"
  using malformed_message_effect [of live_session empty_msg]
  by (simp add: is_control_def empty_msg_def num_or0_def)

text \<open>
  C10, as stated: every well-formed inbound message with \<open>face_detected\<close> true and no
  \<open>emotion\<close> takes the session to \<open>Live\<close> and updates the rate. A keepalive that carries
  \<open>face_detected\<close> true, no emotion and \<open>fps\<close> 30 is dropped by the first test of the
  handler: the session that was \<open>NoFace\<close> with \<open>fps\<close> 0 stays exactly as it was.
\<close>

theorem control_message_counterexample:
  "is_control keepalive_face_msg \<and> m_face_detected keepalive_face_msg = Some True \<and>
   m_emotion keepalive_face_msg = None \<and> m_fps keepalive_face_msg = Some 30 \<and>
   status no_face_session = NoFace \<and> fps no_face_session = 0 \<and>
   on_message no_face_session (JsonObject keepalive_face_msg) = no_face_session"
  by (simp add: no_face_session_def keepalive_face_msg_def sample_defs)

text \<open>
  C10, amended: a message that is not a keepalive or pong, has \<open>face_detected\<close> true and
  no \<open>emotion\<close> sets the status to \<open>Live\<close> and updates \<open>fps\<close>; the timeline, the latest
  label, the confidence and the stress score stay as they were (only \<open>fps\<close>,
  \<open>faceDetected\<close> and \<open>status\<close> are assigned). A keepalive or pong changes nothing at all.
  Whenever a message changes the timeline, it is an object that carries an emotion label.
\<close>

theorem face_without_emotion:
  "(\<not> is_control d \<and> m_face_detected d = Some True \<and> m_emotion d = None \<longrightarrow>
      on_message s (JsonObject d)
        = s\<lparr> fps := num_or0 (m_fps d), faceDetected := True, status := Live \<rparr>) \<and>
   (is_control d \<longrightarrow> on_message s (JsonObject d) = s) \<and>
   (timelineRef (on_message s i) \<noteq> timelineRef s \<longrightarrow>
      (\<exists>d'. i = JsonObject d' \<and> m_emotion d' \<noteq> None))"
  by (cases i)
    (auto simp add: on_message_def truthy_bool_def truthy_str_def split: option.splits)

theorem face_without_emotion_witness:
  "\<not> is_control face_only_msg \<and> m_face_detected face_only_msg = Some True
     \<and> m_emotion face_only_msg = None
     \<and> status no_face_session = NoFace \<and> fps no_face_session = 0
     \<and> status (on_message no_face_session (JsonObject face_only_msg)) = Live
     \<and> fps (on_message no_face_session (JsonObject face_only_msg)) = 30
     \<and> on_message no_face_session (JsonObject face_only_msg)
         = no_face_session\<lparr> fps := 30, faceDetected := True, status := Live \<rparr>
     \<and> is_control keepalive_face_msg
     \<and> on_message no_face_session (JsonObject keepalive_face_msg) = no_face_session
     \<and> timelineRef (on_message open_session (JsonObject calm_msg)) \<noteq> timelineRef open_session
     \<and> m_emotion calm_msg \<noteq> None"
  using face_without_emotion [of face_only_msg no_face_session "JsonObject calm_msg"]
    face_without_emotion [of keepalive_face_msg no_face_session "JsonObject calm_msg"]
    face_without_emotion [of face_only_msg open_session "JsonObject calm_msg"]
  by (simp add: no_face_session_def keepalive_face_msg_def sample_defs)

subsection \<open>The frame loop\<close>

text \<open>
  C7: a tick that finds the socket missing or not open does nothing at all: \<open>capture\<close>
  returns the session as it was, however often it runs; no frame is drawn or encoded,
  nothing is handed to a reader or to the socket, and no further frame is requested. A
  frame whose reader finishes while the socket is not open is dropped as well.
\<close>

theorem closed_channel_tick_skipped:
  "ws_ready s \<noteq> Some OPEN \<Longrightarrow>
     capture s = s \<and> (capture ^^ n) s = s \<and>
     encodes (run_frame s) = encodes s \<and> toBlob_pending (run_frame s) = toBlob_pending s \<and>
     readers (run_frame s) = readers s \<and> wsRef (run_frame s) = wsRef s \<and>
     raf_pending (run_frame s) = tl (raf_pending s) \<and>
     wsRef (reader_onload s) = wsRef s"
proof -
  assume closed: "ws_ready s \<noteq> Some OPEN"
  then have c: "capture s = s" by (simp add: capture_def)
  have it: "(capture ^^ n) s = s" by (induction n) (simp_all add: c)
  have r: "run_frame s = s\<lparr>raf_pending := tl (raf_pending s)\<rparr>"
    using closed by (cases "raf_pending s") (simp_all add: run_frame_def capture_def ws_ready_def)
  have l: "wsRef (reader_onload s) = wsRef s"
    using closed by (cases "readers s") (auto simp add: reader_onload_def ws_ready_def Let_def)
  show ?thesis using c it l by (simp add: r)
qed

theorem closed_channel_tick_skipped_witness:
  "ws_ready connecting_session \<noteq> Some OPEN \<and> capture connecting_session = connecting_session
     \<and> (capture ^^ 5) connecting_session = connecting_session"
  using closed_channel_tick_skipped [of connecting_session 5]
  by (simp add: sample_defs ws_ready_def)

subsection \<open>Opening, resetting and closing\<close>

text \<open>
  C6, as stated: after the socket has opened and before any message has arrived the status
  is still \<open>Connecting\<close>. In the sample run the status is \<open>Connecting\<close> before the \<open>open\<close>
  event and \<open>Live\<close> right after it, with no message received.
\<close>

theorem awaiting_first_message_counterexample:
  "status connecting_session = Connecting \<and> emotion_updates open_session = []
     \<and> timeline open_session = [] \<and> status open_session = Live"
  by (simp add: sample_defs)

text \<open>
  C6, amended: the \<open>open\<close> event itself sets the status to \<open>Live\<close>, before any inbound
  message, leaves \<open>faceDetected\<close> as it was and starts the frame loop; every inbound
  message that is not a keepalive then sets the status to \<open>Live\<close> or \<open>NoFace\<close> according to
  its \<open>face_detected\<close> flag.
\<close>

theorem open_sets_live:
  "status (ev_open s) = Live \<and> faceDetected (ev_open s) = faceDetected s \<and>
   (mounted s \<longrightarrow> raf_pending (ev_open s) = raf_pending s @ [raf_next s]) \<and>
   (\<not> is_control d \<longrightarrow>
      status (on_message s (JsonObject d))
        = (if m_face_detected d = Some True then Live else NoFace))"
  by (simp add: ev_open_def on_open_def startFrameLoop_def request_frame_def set_ready_def
      on_message_def truthy_bool_def)

theorem open_sets_live_witness:
  "mounted connecting_session \<and> \<not> is_control empty_msg \<and>
   status (ev_open connecting_session) = Live \<and>
   raf_pending (ev_open connecting_session) = [1] \<and>
   status (on_message open_session (JsonObject empty_msg)) = NoFace"
  using open_sets_live [of connecting_session empty_msg]
    open_sets_live [of open_session empty_msg]
  by (simp add: sample_defs)

text \<open>
  C8, as stated: reset is valid only while the session is \<open>Live\<close> or \<open>NoFace\<close>. The
  component renders the RESET button whenever the status is not \<open>Idle\<close>. After a socket
  error in the sample run the status is \<open>Error\<close>, the button is offered, and pressing it
  empties the timeline while nothing is transmitted on the closed socket.
\<close>

theorem reset_validity_counterexample:
  "reachable error_session \<and> status error_session = Error \<and> reset_offered error_session \<and>
   length (timeline error_session) = 1 \<and>
   (\<exists>s'. reset error_session = Inr s' \<and> timeline s' = [] \<and> status s' = Error \<and>
      map_option sent (wsRef s') = Some [])"
proof -
  have "reachable error_session"
    unfolding error_session_def
    by (rule r_error [OF live_reachable]) (simp add: sample_defs)
  then show ?thesis
    by (simp add: error_session_def ev_error_def on_error_def sample_defs reset_offered_def
        reset_def clear_timeline_def)
qed

text \<open>
  C8, amended: the reset button is offered exactly while the status is not \<open>Idle\<close> (so also
  while connecting and after an error). While the session is \<open>Live\<close> or \<open>NoFace\<close> on an open
  socket, pressing it succeeds, empties the timeline, transmits the control message
  \<open>{ "type": "reset" }\<close> and changes nothing else: the status, the socket's ready state, the
  camera stream and the frame loop are as before.
\<close>

theorem reset_effect:
  "reset_offered s = (status s \<noteq> Idle) \<and>
   ((status s = Live \<or> status s = NoFace) \<and> wsRef s = Some w \<and> readyState w = OPEN \<longrightarrow>
     (\<exists>s'. reset s = Inr s' \<and>
        s' = s\<lparr> wsRef := Some (w\<lparr>sent := sent w @ [TypeMsg ''reset'']\<rparr>),
                timelineRef := [], timeline := [] \<rparr> \<and>
        length (timeline s') = 0 \<and> length (timelineRef s') = 0 \<and>
        status s' = status s \<and> ws_ready s' = Some OPEN \<and> streamRef s' = streamRef s \<and>
        raf_pending s' = raf_pending s))"
  by (auto simp add: reset_def reset_offered_def clear_timeline_def ws_transmit_def ws_ready_def)

theorem reset_effect_witness:
  "status live_session = Live \<and> ws_ready live_session = Some OPEN \<and>
   length (timeline live_session) = 1 \<and>
   (\<exists>s'. reset live_session = Inr s' \<and> timeline s' = [] \<and> status s' = Live \<and>
      map_option sent (wsRef s') = Some [TypeMsg ''reset''])"
  using reset_effect [of live_session "\<lparr>readyState = OPEN, captured_status = Idle, sent = []\<rparr>"]
  by (simp add: sample_defs ws_ready_def)

text \<open>
  The close handler never touches the camera stream or the timeline, whatever status it
  closed over; with the status \<open>Idle\<close> closed over it does not change the status either.
\<close>

lemma close_keeps_stream:
  "streamRef (ev_close s) = streamRef s \<and> timeline (ev_close s) = timeline s \<and>
   timelineRef (ev_close s) = timelineRef s"
  by (cases "wsRef s")
    (simp_all add: ev_close_def on_close_def stopFrameLoop_other set_ready_def)

lemma close_stale_status:
  "wsRef s = Some w \<Longrightarrow> captured_status w = Idle \<Longrightarrow> status (ev_close s) = status s"
  by (simp add: ev_close_def on_close_def stopFrameLoop_other set_ready_def)

text \<open>
  C1 says that a close of the socket without a prior stop takes a live session to \<open>Idle\<close>,
  releases the camera exactly once and keeps the timeline. In the sample run the close
  handler cancels the frame loop and keeps the timeline, but the status stays \<open>Live\<close> (the
  handler compares the status it closed over, \<open>Idle\<close>, and so never assigns) and the
  camera track is neither stopped nor ended.
\<close>

theorem unexpected_close_at_live:
  "status live_session = Live \<and> ws_ready live_session = Some OPEN \<and>
   status (ev_close live_session) = Live \<and>
   ws_ready (ev_close live_session) = Some CLOSED \<and>
   streamRef (ev_close live_session) = Some [\<lparr> ended = False, stop_calls = 0 \<rparr>] \<and>
   raf_pending (ev_close live_session) = [] \<and>
   timeline (ev_close live_session) = timeline live_session"
  by (simp add: sample_defs ev_close_def on_close_def stopFrameLoop_def ws_ready_def)

subsection \<open>The timeline\<close>

text \<open>
  C3: the timeline of a reachable session never holds more than 300 entries. After any
  sequence of inbound messages it is the last 300 entries of the old timeline followed by
  the samples those messages appended, in arrival order; once 300 or more samples have been
  appended it is exactly the last 300 of them, the oldest having been dropped first.
\<close>

theorem history_bounded:
  "reachable s \<Longrightarrow>
     length (timeline s) \<le> 300 \<and>
     timeline (on_messages s ms) = slice_neg 300 (timeline s @ appended ms) \<and>
     length (timeline (on_messages s ms)) \<le> 300 \<and>
     (300 \<le> length (appended ms) \<longrightarrow>
        timeline (on_messages s ms) = slice_neg 300 (appended ms))"
proof -
  assume "reachable s"
  then have i: "session_inv s" by (rule reachable_inv)
  then have sync: "timeline s = timelineRef s" and len: "length (timelineRef s) \<le> 300"
    by (simp_all add: session_inv_def)
  have "timelineRef (on_messages s ms) = slice_neg 300 (timelineRef s @ appended ms)"
    by (simp add: on_messages_timelineRef push_fold [OF len])
  then have e: "timeline (on_messages s ms) = slice_neg 300 (timeline s @ appended ms)"
    using on_messages_timeline_sync [OF sync] sync by simp
  show ?thesis using sync len
    by (simp add: e slice_neg_length slice_neg_long)
qed


theorem history_bounded_witness:
  "reachable init \<and> 300 \<le> length (appended (replicate 301 (JsonObject calm_msg))) \<and>
   timeline (on_messages init (replicate 301 (JsonObject calm_msg)))
     = replicate 300 (entry_of calm_msg)"
proof -
  let ?ms = "replicate 301 (JsonObject calm_msg)"
  have a: "300 \<le> length (appended ?ms)" by (simp add: appended_replicate)
  have "timeline (on_messages init ?ms) = slice_neg 300 (appended ?ms)"
    using history_bounded [OF r_init, of ?ms] a by blast
  also have "\<dots> = replicate 300 (entry_of calm_msg)"
    by (simp add: appended_replicate slice_neg_def)
  finally show ?thesis using a r_init by simp
qed

subsection \<open>Stopping\<close>




subsection \<open>Live and no-face\<close>





subsection \<open>Session statistics\<close>



end
